theory Spec2Isabelle
  imports Main
begin

section \<open>The lazy bloom page iterator of \<^verbatim>\<open>pkg/storage/bloom/v1/bloom_querier.go\<close>\<close>

text \<open>
  The file defines \<^verbatim>\<open>LazyBloomIter\<close>, a cursor over the pages of one bloom block. The
  block, its byte reader and the page decoder are declared elsewhere in the package; the
  cursor only calls them. They are therefore parameters of the model (the record
  \<open>env\<close> below), and every theorem holds for all of them.
\<close>

subsection \<open>Errors\<close>

text \<open>
  \<^verbatim>\<open>ErrPageTooLarge\<close> is the package's sentinel error. \<^verbatim>\<open>errors.Wrap(err, msg)\<close> of
  \<^verbatim>\<open>github.com/pkg/errors\<close> builds a new error around a non-nil cause, and
  \<^verbatim>\<open>errors.Is\<close> follows the chain of causes, comparing each link with the target.
\<close>

datatype error = ErrPageTooLarge | ErrOther string | Wrap error string

fun errors_Is :: "error \<Rightarrow> error \<Rightarrow> bool" where
  "errors_Is (Wrap c msg) t = (Wrap c msg = t \<or> errors_Is c t)"
| "errors_Is ErrPageTooLarge t = (ErrPageTooLarge = t)"
| "errors_Is (ErrOther s) t = (ErrOther s = t)"

text \<open>The cursor's \<^verbatim>\<open>err\<close> field is an interface value: \<open>None\<close> is \<^verbatim>\<open>nil\<close>.\<close>

definition is_PageTooLarge :: "error option \<Rightarrow> bool" where
  "is_PageTooLarge eo = (case eo of None \<Rightarrow> False | Some e \<Rightarrow> errors_Is e ErrPageTooLarge)"

text \<open>A method called through a nil \<^verbatim>\<open>*BloomPageDecoder\<close> dereferences nil and panics.\<close>

datatype panic = NilPointerDereference

subsection \<open>Data\<close>

record BloomOffset =
  Page :: int
  ByteOffset :: int

text \<open>
  Of the block the cursor reads \<^verbatim>\<open>len(it.b.blooms.pageHeaders)\<close>; everything else behind
  the block (the reader, the page pool, the bytes) is the component \<open>io\<close>, of a type the
  model leaves open. Only \<^verbatim>\<open>LoadHeaders\<close> writes the page headers.
\<close>

record 'w Block =
  pageHeaders :: nat
  io :: 'w

text \<open>
  The calls the cursor makes to its collaborators, in order. This log is not a field of
  the Go struct: it is kept beside the fields so that theorems can say which calls an
  operation made. A page decoder is a heap object; the number in \<open>CallPageSeek\<close>,
  \<open>CallPageNext\<close> and \<open>CallRelinquish\<close> is the identity of the decoder the
  method was called on. The reads \<^verbatim>\<open>curPage.Err()\<close> and \<^verbatim>\<open>curPage.At()\<close> are not logged.
\<close>

datatype call =
    CallLoadHeaders
  | CallBlooms
  | CallBloomPageDecoder int
  | CallPageSeek nat int
  | CallPageNext nat
  | CallRelinquish nat

text \<open>
  The collaborators. \<open>'w\<close> is the state behind the block, \<open>'r\<close> a reader handle, \<open>'d\<close> the
  state of a page decoder, \<open>'b\<close> a decoded bloom.
  \<^item> \<open>b_LoadHeaders\<close>: \<^verbatim>\<open>it.b.LoadHeaders()\<close>;
  \<^item> \<open>reader_Blooms\<close>: \<^verbatim>\<open>it.b.reader.Blooms()\<close>;
  \<^item> \<open>blooms_BloomPageDecoder\<close>: \<^verbatim>\<open>it.b.blooms.BloomPageDecoder(r, page, it.m, it.b.metrics)\<close>;
  \<^item> \<open>page_Seek\<close>, \<open>page_Next\<close>, \<open>page_Err\<close>, \<open>page_At\<close>, \<open>page_Relinquish\<close>: the methods
    of \<^verbatim>\<open>*BloomPageDecoder\<close> the cursor calls.

  A Go call returning \<^verbatim>\<open>(value, error)\<close> is a sum here: \<open>Inl\<close> the non-nil error, \<open>Inr\<close>
  the value, which for \<^verbatim>\<open>BloomPageDecoder\<close> is a fresh, non-nil decoder. \<^verbatim>\<open>Relinquish\<close>
  hands the page's buffer back to the pool, so it may change the state behind the block
  as well as the decoder.
\<close>

record ('w, 'r, 'd, 'b) env =
  b_LoadHeaders :: "'w Block \<Rightarrow> error option \<times> 'w Block"
  reader_Blooms :: "'w \<Rightarrow> (error + 'r) \<times> 'w"
  blooms_BloomPageDecoder :: "'r \<Rightarrow> int \<Rightarrow> int \<Rightarrow> 'w Block \<Rightarrow> (error + 'd) \<times> 'w"
  page_Seek :: "int \<Rightarrow> 'd \<Rightarrow> 'd"
  page_Next :: "'d \<Rightarrow> bool \<times> 'd"
  page_Err :: "'d \<Rightarrow> error option"
  page_At :: "'d \<Rightarrow> 'b"
  page_Relinquish :: "'d \<Rightarrow> 'w \<Rightarrow> 'd \<times> 'w"

text \<open>
  \<^verbatim>\<open>type LazyBloomIter struct\<close>. The fields \<^verbatim>\<open>b\<close> and \<^verbatim>\<open>m\<close> are \<open>b_block\<close> and
  \<open>m_maxSize\<close>. \<open>curPage\<close> is a pointer: \<open>None\<close> is nil, \<open>Some (i, d)\<close> points to the
  decoder object \<open>i\<close> whose state is \<open>d\<close>. The cursor is the only holder of that pointer,
  so the state of the object is kept with it. \<open>nextId\<close> (the identity the next decoder
  object gets) and \<open>calls\<close> are bookkeeping of the model.

  \<^verbatim>\<open>curPageIndex\<close> is a Go \<^verbatim>\<open>int\<close>. Its only arithmetic is \<^verbatim>\<open>it.curPageIndex++\<close> under
  the loop guard \<^verbatim>\<open>it.curPageIndex < len(...)\<close>, which cannot overflow, so it is an \<open>int\<close>.
\<close>

record ('w, 'd) LazyBloomIter =
  usePool :: bool
  b_block :: "'w Block"
  m_maxSize :: int
  initialized :: bool
  err :: "error option"
  curPageIndex :: int
  curPage :: "(nat \<times> 'd) option"
  nextId :: nat
  calls :: "call list"

subsection \<open>Operations\<close>

text \<open>\<^verbatim>\<open>NewLazyBloomIter\<close>: the state fields start at Go's zero values.\<close>

definition NewLazyBloomIter :: "'w Block \<Rightarrow> bool \<Rightarrow> int \<Rightarrow> ('w, 'd) LazyBloomIter" where
  "NewLazyBloomIter b pool maxSize =
     \<lparr>usePool = pool, b_block = b, m_maxSize = maxSize, initialized = False, err = None,
      curPageIndex = 0, curPage = None, nextId = 0, calls = []\<rparr>"

definition ensureInit ::
  "('w, 'r, 'd, 'b) env \<Rightarrow> ('w, 'd) LazyBloomIter \<Rightarrow> ('w, 'd) LazyBloomIter" where
  "ensureInit E it =
     (if \<not> initialized it then
        (case b_LoadHeaders E (b_block it) of
           (Some e, b') \<Rightarrow>
             it\<lparr>b_block := b', err := Some e, initialized := True,
                calls := calls it @ [CallLoadHeaders]\<rparr>
         | (None, b') \<Rightarrow>
             it\<lparr>b_block := b', initialized := True, calls := calls it @ [CallLoadHeaders]\<rparr>)
      else it)"

text \<open>Lines 49 to 51 of \<^verbatim>\<open>Seek\<close>: forget a recorded page-too-large error.\<close>

definition resetPageTooLarge :: "('w, 'd) LazyBloomIter \<Rightarrow> ('w, 'd) LazyBloomIter" where
  "resetPageTooLarge it = (if is_PageTooLarge (err it) then it\<lparr>err := None\<rparr> else it)"

text \<open>Lines 59 to 61: \<^verbatim>\<open>if it.curPage != nil && it.usePool { it.curPage.Relinquish() }\<close>.\<close>

definition dropPage ::
  "('w, 'r, 'd, 'b) env \<Rightarrow> ('w, 'd) LazyBloomIter \<Rightarrow> ('w, 'd) LazyBloomIter" where
  "dropPage E it =
     (case curPage it of
        Some (i, d) \<Rightarrow>
          (if usePool it then
             (case page_Relinquish E d (io (b_block it)) of
                (d', w) \<Rightarrow>
                  it\<lparr>b_block := (b_block it)\<lparr>io := w\<rparr>, curPage := Some (i, d'),
                     calls := calls it @ [CallRelinquish i]\<rparr>)
           else it)
      | None \<Rightarrow> it)"

text \<open>Line 79: \<^verbatim>\<open>it.curPage.Seek(offset.ByteOffset)\<close>.\<close>

definition curPage_Seek ::
  "('w, 'r, 'd, 'b) env \<Rightarrow> int \<Rightarrow> ('w, 'd) LazyBloomIter \<Rightarrow> panic + ('w, 'd) LazyBloomIter" where
  "curPage_Seek E off it =
     (case curPage it of
        None \<Rightarrow> Inl NilPointerDereference
      | Some (i, d) \<Rightarrow>
          Inr (it\<lparr>curPage := Some (i, page_Seek E off d),
                 calls := calls it @ [CallPageSeek i off]\<rparr>))"

text \<open>Lines 55 to 79: the part of \<^verbatim>\<open>Seek\<close> after the error reset.\<close>

definition seekPage ::
  "('w, 'r, 'd, 'b) env \<Rightarrow> BloomOffset \<Rightarrow> ('w, 'd) LazyBloomIter \<Rightarrow>
   panic + ('w, 'd) LazyBloomIter" where
  "seekPage E offset it =
     (if curPageIndex it \<noteq> Page offset \<or> curPage it = None then
        (let it1 = dropPage E it in
         case reader_Blooms E (io (b_block it1)) of
           (Inl e, w1) \<Rightarrow>
             Inr (it1\<lparr>b_block := (b_block it1)\<lparr>io := w1\<rparr>,
                     err := Some (Wrap e ''getting blooms reader''),
                     calls := calls it1 @ [CallBlooms]\<rparr>)
         | (Inr r, w1) \<Rightarrow>
             (case blooms_BloomPageDecoder E r (Page offset) (m_maxSize it1)
                     ((b_block it1)\<lparr>io := w1\<rparr>) of
                (Inl e, w2) \<Rightarrow>
                  Inr (it1\<lparr>b_block := (b_block it1)\<lparr>io := w2\<rparr>,
                          err := Some (Wrap e ''loading bloom page''),
                          calls := calls it1 @ [CallBlooms, CallBloomPageDecoder (Page offset)]\<rparr>)
              | (Inr d, w2) \<Rightarrow>
                  curPage_Seek E (ByteOffset offset)
                    (it1\<lparr>b_block := (b_block it1)\<lparr>io := w2\<rparr>,
                        curPageIndex := Page offset,
                        curPage := Some (nextId it1, d),
                        nextId := Suc (nextId it1),
                        calls := calls it1 @ [CallBlooms, CallBloomPageDecoder (Page offset)]\<rparr>)))
      else curPage_Seek E (ByteOffset offset) it)"

text \<open>
  \<^verbatim>\<open>func (it *LazyBloomIter) Seek(offset BloomOffset)\<close>. It returns nothing; the result is
  the cursor after the call, or the panic.
\<close>

definition Seek ::
  "('w, 'r, 'd, 'b) env \<Rightarrow> BloomOffset \<Rightarrow> ('w, 'd) LazyBloomIter \<Rightarrow>
   panic + ('w, 'd) LazyBloomIter" where
  "Seek E offset it = seekPage E offset (resetPageTooLarge (ensureInit E it))"

text \<open>
  The \<^verbatim>\<open>for\<close> loop of \<^verbatim>\<open>next\<close> (lines 95 to 138). Each round either returns, or turns a
  nil \<^verbatim>\<open>curPage\<close> into a decoder, or moves to the next page index; the number of page
  headers does not change, so the loop ends.
\<close>

function next_loop ::
  "('w, 'r, 'd, 'b) env \<Rightarrow> ('w, 'd) LazyBloomIter \<Rightarrow> bool \<times> ('w, 'd) LazyBloomIter" where
  "next_loop E it =
     (if curPageIndex it < int (pageHeaders (b_block it)) then
        (case curPage it of
           None \<Rightarrow>
             (case reader_Blooms E (io (b_block it)) of
                (Inl e, w1) \<Rightarrow>
                  (False, it\<lparr>b_block := (b_block it)\<lparr>io := w1\<rparr>,
                             err := Some (Wrap e ''getting blooms reader''),
                             calls := calls it @ [CallBlooms]\<rparr>)
              | (Inr r, w1) \<Rightarrow>
                  (case blooms_BloomPageDecoder E r (curPageIndex it) (m_maxSize it)
                          ((b_block it)\<lparr>io := w1\<rparr>) of
                     (Inl e, w2) \<Rightarrow>
                       (False, it\<lparr>b_block := (b_block it)\<lparr>io := w2\<rparr>,
                                  err := Some e, curPage := None,
                                  calls := calls it
                                    @ [CallBlooms, CallBloomPageDecoder (curPageIndex it)]\<rparr>)
                   | (Inr d, w2) \<Rightarrow>
                       next_loop E
                         (it\<lparr>b_block := (b_block it)\<lparr>io := w2\<rparr>,
                             curPage := Some (nextId it, d),
                             nextId := Suc (nextId it),
                             calls := calls it
                               @ [CallBlooms, CallBloomPageDecoder (curPageIndex it)]\<rparr>)))
         | Some (i, d) \<Rightarrow>
             (case page_Next E d of
                (True, d') \<Rightarrow>
                  (True, it\<lparr>curPage := Some (i, d'), calls := calls it @ [CallPageNext i]\<rparr>)
              | (False, d') \<Rightarrow>
                  (if page_Err E d' \<noteq> None then
                     (False, it\<lparr>curPage := Some (i, d'), calls := calls it @ [CallPageNext i]\<rparr>)
                   else if usePool it then
                     (case page_Relinquish E d' (io (b_block it)) of
                        (d'', w) \<Rightarrow>
                          next_loop E
                            (it\<lparr>b_block := (b_block it)\<lparr>io := w\<rparr>,
                                curPageIndex := curPageIndex it + 1,
                                curPage := None,
                                calls := calls it @ [CallPageNext i, CallRelinquish i]\<rparr>))
                   else
                     next_loop E
                       (it\<lparr>curPageIndex := curPageIndex it + 1,
                           curPage := None,
                           calls := calls it @ [CallPageNext i]\<rparr>))))
      else (False, it))"
  by pat_completeness auto
termination
  by (relation "measures
        [\<lambda>(E, it). nat (int (pageHeaders (b_block it)) - curPageIndex it),
         \<lambda>(E, it). (if curPage it = None then 1 else 0)]") auto

declare next_loop.simps [simp del]

text \<open>\<^verbatim>\<open>func (it *LazyBloomIter) next() bool\<close>.\<close>

definition next_it ::
  "('w, 'r, 'd, 'b) env \<Rightarrow> ('w, 'd) LazyBloomIter \<Rightarrow> bool \<times> ('w, 'd) LazyBloomIter" where
  "next_it E it = (if err it \<noteq> None then (False, it) else next_loop E it)"

text \<open>\<^verbatim>\<open>func (it *LazyBloomIter) Next() bool\<close>.\<close>

definition Next ::
  "('w, 'r, 'd, 'b) env \<Rightarrow> ('w, 'd) LazyBloomIter \<Rightarrow> bool \<times> ('w, 'd) LazyBloomIter" where
  "Next E it =
     (let it1 = ensureInit E it in
      if err it1 \<noteq> None then (False, it1) else next_it E it1)"

text \<open>\<^verbatim>\<open>func (it *LazyBloomIter) At() *Bloom\<close>: \<^verbatim>\<open>return it.curPage.At()\<close>.\<close>

definition At :: "('w, 'r, 'd, 'b) env \<Rightarrow> ('w, 'd) LazyBloomIter \<Rightarrow> panic + 'b" where
  "At E it =
     (case curPage it of
        None \<Rightarrow> Inl NilPointerDereference
      | Some (i, d) \<Rightarrow> Inr (page_At E d))"

text \<open>\<^verbatim>\<open>func (it *LazyBloomIter) Err() error\<close>.\<close>

definition Err :: "('w, 'r, 'd, 'b) env \<Rightarrow> ('w, 'd) LazyBloomIter \<Rightarrow> error option" where
  "Err E it =
     (if err it \<noteq> None then err it
      else if curPage it \<noteq> None then
        (case curPage it of Some (i, d) \<Rightarrow> page_Err E d | None \<Rightarrow> None)
      else None)"

subsection \<open>Driving the cursor\<close>

text \<open>
  A caller drives the cursor by a sequence of \<^verbatim>\<open>Seek\<close> and \<^verbatim>\<open>Next\<close> calls. \<open>run\<close> performs
  such a sequence, stopping at a panic.
\<close>

datatype op = OpSeek BloomOffset | OpNext

fun run ::
  "('w, 'r, 'd, 'b) env \<Rightarrow> op list \<Rightarrow> ('w, 'd) LazyBloomIter \<Rightarrow>
   panic + ('w, 'd) LazyBloomIter" where
  "run E [] it = Inr it"
| "run E (OpSeek offset # ops) it =
     (case Seek E offset it of Inl p \<Rightarrow> Inl p | Inr it' \<Rightarrow> run E ops it')"
| "run E (OpNext # ops) it = run E ops (snd (Next E it))"

text \<open>How often \<^verbatim>\<open>Relinquish\<close> was called on the decoder object \<open>i\<close>.\<close>

definition releases :: "nat \<Rightarrow> call list \<Rightarrow> nat" where
  "releases i cs = count_list cs (CallRelinquish i)"

subsection \<open>A small block to run the model on\<close>

text \<open>
  A block of three pages behind collaborators that keep no state: page 0 holds two
  records, page 1 is 100 bytes large (too large for a smaller \<^verbatim>\<open>maxSize\<close>) and holds one
  record, page 2 fails to decode, and any other page index is refused. A decoder is its
  byte position, the records left and its error; \<^verbatim>\<open>Relinquish\<close> drops the records.
\<close>

definition demo_env :: "(unit, unit, int \<times> nat list \<times> error option, int \<times> nat) env" where
  "demo_env =
     \<lparr>b_LoadHeaders = (\<lambda>b. (None, b\<lparr>pageHeaders := 3\<rparr>)),
      reader_Blooms = (\<lambda>w. (Inr (), w)),
      blooms_BloomPageDecoder = (\<lambda>r p m b.
         if p = 0 then (Inr (0, [10, 20], None), io b)
         else if p = 1 then
           (if m < 100 then (Inl ErrPageTooLarge, io b) else (Inr (0, [30], None), io b))
         else if p = 2 then (Inr (0, [], Some (ErrOther ''decode'')), io b)
         else (Inl (ErrOther ''invalid page''), io b)),
      page_Seek = (\<lambda>off (pos, xs, e). (off, xs, e)),
      page_Next = (\<lambda>(pos, xs, e).
         case xs of [] \<Rightarrow> (False, (pos, xs, e)) | x # xs' \<Rightarrow> (True, (pos + 1, xs', e))),
      page_Err = (\<lambda>(pos, xs, e). e),
      page_At = (\<lambda>(pos, xs, e). (pos, length xs)),
      page_Relinquish = (\<lambda>d w. ((fst d, [], snd (snd d)), w))\<rparr>"

definition demo_block :: "unit Block" where
  "demo_block = \<lparr>pageHeaders = 0, io = ()\<rparr>"

text \<open>A fresh pooled cursor over the block, with \<^verbatim>\<open>maxSize\<close> 50.\<close>

definition demo_it :: "(unit, int \<times> nat list \<times> error option) LazyBloomIter" where
  "demo_it = NewLazyBloomIter demo_block True 50"

text \<open>The same block with a reader that cannot be opened.\<close>

definition demo_offline :: "(unit, unit, int \<times> nat list \<times> error option, int \<times> nat) env" where
  "demo_offline = demo_env\<lparr>reader_Blooms := (\<lambda>w. (Inl (ErrOther ''no reader''), w))\<rparr>"

text \<open>The cursor after its headers are loaded, with the given fields.\<close>

definition demo_state ::
  "error option \<Rightarrow> int \<Rightarrow> (nat \<times> int \<times> nat list \<times> error option) option \<Rightarrow>
   (unit, int \<times> nat list \<times> error option) LazyBloomIter" where
  "demo_state e p c =
     \<lparr>usePool = True, b_block = \<lparr>pageHeaders = 3, io = ()\<rparr>, m_maxSize = 50,
      initialized = True, err = e, curPageIndex = p, curPage = c, nextId = 1,
      calls = []\<rparr>"

section \<open>Properties\<close>

lemmas it_defs = ensureInit_def resetPageTooLarge_def dropPage_def curPage_Seek_def
  seekPage_def Seek_def next_it_def Next_def At_def Err_def is_PageTooLarge_def

lemmas demo_defs = demo_env_def demo_block_def demo_it_def demo_state_def
  NewLazyBloomIter_def releases_def

subsection \<open>The steps of \<^verbatim>\<open>Seek\<close>\<close>

lemma ensureInit_idem: "initialized it \<Longrightarrow> ensureInit E it = it"
  by (simp add: ensureInit_def)

lemma ensureInit_fields:
  "usePool (ensureInit E it) = usePool it"
  "m_maxSize (ensureInit E it) = m_maxSize it"
  "curPageIndex (ensureInit E it) = curPageIndex it"
  "curPage (ensureInit E it) = curPage it"
  "nextId (ensureInit E it) = nextId it"
  "initialized (ensureInit E it)"
  "calls (ensureInit E it) = calls it @ (if initialized it then [] else [CallLoadHeaders])"
  by (simp_all add: ensureInit_def split: prod.split option.split)

lemma resetPageTooLarge_fields:
  "usePool (resetPageTooLarge it) = usePool it"
  "b_block (resetPageTooLarge it) = b_block it"
  "m_maxSize (resetPageTooLarge it) = m_maxSize it"
  "curPageIndex (resetPageTooLarge it) = curPageIndex it"
  "curPage (resetPageTooLarge it) = curPage it"
  "nextId (resetPageTooLarge it) = nextId it"
  "initialized (resetPageTooLarge it) = initialized it"
  "calls (resetPageTooLarge it) = calls it"
  by (simp_all add: resetPageTooLarge_def)

lemma dropPage_fields:
  "usePool (dropPage E it) = usePool it"
  "m_maxSize (dropPage E it) = m_maxSize it"
  "curPageIndex (dropPage E it) = curPageIndex it"
  "err (dropPage E it) = err it"
  "nextId (dropPage E it) = nextId it"
  "initialized (dropPage E it) = initialized it"
  "pageHeaders (b_block (dropPage E it)) = pageHeaders (b_block it)"
  by (simp_all add: dropPage_def split: prod.split option.split)

lemma dropPage_calls:
  "calls (dropPage E it) =
     calls it @ (case curPage it of
                   Some (i, d) \<Rightarrow> if usePool it then [CallRelinquish i] else []
                 | None \<Rightarrow> [])"
  by (simp add: dropPage_def split: prod.split option.split)

lemma dropPage_held:
  assumes "usePool it" and "curPage it = Some (i, d)"
    and "page_Relinquish E d (io (b_block it)) = (d', w)"
  shows "dropPage E it = it\<lparr>b_block := (b_block it)\<lparr>io := w\<rparr>, curPage := Some (i, d'),
                             calls := calls it @ [CallRelinquish i]\<rparr>"
  using assms by (simp add: dropPage_def)

text \<open>
  Line 79 is never reached with a nil \<^verbatim>\<open>curPage\<close>: \<^verbatim>\<open>Seek\<close> does not panic.
\<close>

lemma seekPage_returns: "\<exists>it'. seekPage E offset it = Inr it'"
  by (auto simp: seekPage_def curPage_Seek_def Let_def split: prod.split sum.split option.split)

lemma Seek_returns: "\<exists>it'. Seek E offset it = Inr it'"
  by (simp add: Seek_def seekPage_returns)

lemma seekPage_same_page:
  assumes "curPage it = Some (i, d)" and "curPageIndex it = Page offset"
  shows "seekPage E offset it =
           Inr (it\<lparr>curPage := Some (i, page_Seek E (ByteOffset offset) d),
                   calls := calls it @ [CallPageSeek i (ByteOffset offset)]\<rparr>)"
  using assms by (simp add: seekPage_def curPage_Seek_def)

lemma seekPage_err:
  assumes "seekPage E offset it = Inr it'"
  shows "err it' = err it \<or> (\<exists>c. err it' = Some (Wrap c ''getting blooms reader''))
         \<or> (\<exists>c. err it' = Some (Wrap c ''loading bloom page''))"
  using assms
  by (auto simp: seekPage_def curPage_Seek_def Let_def dropPage_fields
      split: prod.splits sum.splits option.splits if_splits)

lemma seekPage_load_fails:
  assumes "curPageIndex it \<noteq> Page offset \<or> curPage it = None"
    and "(\<exists>e w1. reader_Blooms E (io (b_block (dropPage E it))) = (Inl e, w1)) \<or>
         (\<exists>r w1 e w2. reader_Blooms E (io (b_block (dropPage E it))) = (Inr r, w1) \<and>
            blooms_BloomPageDecoder E r (Page offset) (m_maxSize it)
              ((b_block (dropPage E it))\<lparr>io := w1\<rparr>) = (Inl e, w2))"
  shows "\<exists>it'. seekPage E offset it = Inr it' \<and> curPage it' = curPage (dropPage E it) \<and>
           curPageIndex it' = curPageIndex it \<and> usePool it' = usePool it \<and>
           initialized it' = initialized it \<and> err it' \<noteq> None"
  using assms
  by (auto simp: seekPage_def Let_def dropPage_fields)

text \<open>
  What \<^verbatim>\<open>Seek\<close> returns when it has to load a page, for each outcome of the two
  requests; \<open>it2\<close> is the cursor after the release of the held page.
\<close>

lemma seekPage_load_outcomes:
  assumes "curPageIndex it \<noteq> Page offset \<or> curPage it = None"
    and "it2 = dropPage E it"
  shows
   "(reader_Blooms E (io (b_block it2)) = (Inl e, w1) \<longrightarrow>
       seekPage E offset it =
         Inr (it2\<lparr>b_block := (b_block it2)\<lparr>io := w1\<rparr>,
                 err := Some (Wrap e ''getting blooms reader''),
                 calls := calls it2 @ [CallBlooms]\<rparr>)) \<and>
    (reader_Blooms E (io (b_block it2)) = (Inr r, w1) \<and>
     blooms_BloomPageDecoder E r (Page offset) (m_maxSize it) ((b_block it2)\<lparr>io := w1\<rparr>)
       = (Inl e, w2) \<longrightarrow>
       seekPage E offset it =
         Inr (it2\<lparr>b_block := (b_block it2)\<lparr>io := w2\<rparr>,
                 err := Some (Wrap e ''loading bloom page''),
                 calls := calls it2 @ [CallBlooms, CallBloomPageDecoder (Page offset)]\<rparr>)) \<and>
    (reader_Blooms E (io (b_block it2)) = (Inr r, w1) \<and>
     blooms_BloomPageDecoder E r (Page offset) (m_maxSize it) ((b_block it2)\<lparr>io := w1\<rparr>)
       = (Inr dn, w2) \<longrightarrow>
       seekPage E offset it =
         Inr (it2\<lparr>b_block := (b_block it2)\<lparr>io := w2\<rparr>,
                 curPageIndex := Page offset,
                 curPage := Some (nextId it, page_Seek E (ByteOffset offset) dn),
                 nextId := Suc (nextId it),
                 calls := calls it2 @ [CallBlooms, CallBloomPageDecoder (Page offset),
                                       CallPageSeek (nextId it) (ByteOffset offset)]\<rparr>))"
  using assms
  by (simp add: seekPage_def curPage_Seek_def Let_def dropPage_fields)


subsection \<open>Counting releases\<close>

lemma releases_append: "releases i (xs @ ys) = releases i xs + releases i ys"
  by (induction xs) (simp_all add: releases_def)

lemma releases_simps:
  "releases i [] = 0"
  "releases i (CallRelinquish j # cs) = (if j = i then 1 else 0) + releases i cs"
  "releases i (CallBlooms # cs) = releases i cs"
  "releases i (CallLoadHeaders # cs) = releases i cs"
  "releases i (CallBloomPageDecoder p # cs) = releases i cs"
  "releases i (CallPageSeek j off # cs) = releases i cs"
  "releases i (CallPageNext j # cs) = releases i cs"
  by (simp_all add: releases_def)

lemma seekPage_load_releases:
  assumes "curPageIndex it \<noteq> Page offset \<or> curPage it = None"
    and "seekPage E offset it = Inr it'"
  shows "releases i (calls it') = releases i (calls (dropPage E it))"
  using assms
  by (auto simp: seekPage_def curPage_Seek_def Let_def releases_append releases_simps
      split: prod.splits sum.splits option.splits)

subsection \<open>The error a caller sees\<close>

text \<open>
  Claim C7. For every cursor state, \<^verbatim>\<open>Err()\<close> returns the cursor-level recorded error
  when one is set; otherwise, when a page decoder is held, it returns that page's local
  error; otherwise it returns nil.
\<close>

theorem Err_reports:
  "(err it = Some e \<longrightarrow> Err E it = Some e) \<and>
   (err it = None \<and> curPage it = Some (i, d) \<longrightarrow> Err E it = page_Err E d) \<and>
   (err it = None \<and> curPage it = None \<longrightarrow> Err E it = None)"
  by (simp add: Err_def)

theorem Err_reports_witness:
  "err (demo_state (Some ErrPageTooLarge) 2 (Some (0, 0, [], Some (ErrOther ''decode''))))
     = Some ErrPageTooLarge \<and>
   Err demo_env (demo_state (Some ErrPageTooLarge) 2 (Some (0, 0, [], Some (ErrOther ''decode''))))
     = Some ErrPageTooLarge \<and>
   err (demo_state None 2 (Some (0, 0, [], Some (ErrOther ''decode'')))) = None \<and>
   curPage (demo_state None 2 (Some (0, 0, [], Some (ErrOther ''decode''))))
     = Some (0, 0, [], Some (ErrOther ''decode'')) \<and>
   Err demo_env (demo_state None 2 (Some (0, 0, [], Some (ErrOther ''decode''))))
     = Some (ErrOther ''decode'') \<and>
   err (demo_state None 3 None) = None \<and> curPage (demo_state None 3 None) = None \<and>
   Err demo_env (demo_state None 3 None) = None"
  using
    Err_reports [of "demo_state (Some ErrPageTooLarge) 2 (Some (0, 0, [], Some (ErrOther ''decode'')))"
      ErrPageTooLarge demo_env 0 "(0, [], Some (ErrOther ''decode''))"]
    Err_reports [of "demo_state None 2 (Some (0, 0, [], Some (ErrOther ''decode'')))"
      ErrPageTooLarge demo_env 0 "(0, [], Some (ErrOther ''decode''))"]
    Err_reports [of "demo_state None 3 None" ErrPageTooLarge demo_env 0 "(0, [], None)"]
  by (simp add: demo_defs)

subsection \<open>Reading the current record\<close>

text \<open>
  When \<^verbatim>\<open>next\<close> leaves the last page (the held page is exhausted without a page-local
  error and its index is the last one), no page is held afterwards.
\<close>

lemma next_it_leaves_last_page:
  assumes "err it = None" and "curPage it = Some (i, d)"
    and "page_Next E d = (False, d')" and "page_Err E d' = None"
    and "curPageIndex it + 1 = int (pageHeaders (b_block it))"
  shows "fst (next_it E it) = False \<and> curPage (snd (next_it E it)) = None"
proof -
  have guard: "curPageIndex it < int (pageHeaders (b_block it))"
    using assms(5) by simp
  show ?thesis
  proof (cases "usePool it")
    case True
    obtain d'' w where "page_Relinquish E d' (io (b_block it)) = (d'', w)"
      by (cases "page_Relinquish E d' (io (b_block it))")
    with True guard assms show ?thesis
      by (simp add: next_it_def next_loop.simps [of E it])
         (simp add: next_loop.simps)
  next
    case False
    with guard assms show ?thesis
      by (simp add: next_it_def next_loop.simps [of E it])
         (simp add: next_loop.simps)
  qed
qed

text \<open>
  Claim C10. \<^verbatim>\<open>At()\<close> dereferences the held page decoder without a check: in every
  state in which no page is held (nil \<^verbatim>\<open>curPage\<close>), such as a freshly constructed cursor
  or the cursor after \<^verbatim>\<open>next\<close> has exhausted the last page, \<^verbatim>\<open>At()\<close> is a nil-pointer
  dereference; it yields a bloom exactly when a page decoder is held.
\<close>

theorem At_needs_held_page:
  "(curPage it = None \<longrightarrow> At E it = Inl NilPointerDereference) \<and>
   (curPage it = Some (i, d) \<longrightarrow> At E it = Inr (page_At E d)) \<and>
   At E (NewLazyBloomIter b pool maxSize) = Inl NilPointerDereference \<and>
   (err it = None \<and> curPage it = Some (i, d) \<and> page_Next E d = (False, d') \<and>
    page_Err E d' = None \<and> curPageIndex it + 1 = int (pageHeaders (b_block it)) \<longrightarrow>
      At E (snd (next_it E it)) = Inl NilPointerDereference)"
  using next_it_leaves_last_page [of it i d E d']
  by (simp add: At_def NewLazyBloomIter_def)

theorem At_needs_held_page_witness:
  "curPage (demo_state None 3 None) = None \<and>
   At demo_env (demo_state None 3 None) = Inl NilPointerDereference \<and>
   curPage (demo_state None 0 (Some (0, 1, [10, 20], None))) = Some (0, 1, [10, 20], None) \<and>
   At demo_env (demo_state None 0 (Some (0, 1, [10, 20], None))) = Inr (1, 2) \<and>
   At demo_env demo_it = Inl NilPointerDereference \<and>
   err (demo_state None 2 (Some (0, 0, [], None))) = None \<and>
   curPage (demo_state None 2 (Some (0, 0, [], None))) = Some (0, 0, [], None) \<and>
   page_Next demo_env (0, [], None) = (False, 0, [], None) \<and>
   page_Err demo_env (0, [], None) = None \<and>
   curPageIndex (demo_state None 2 (Some (0, 0, [], None))) + 1
     = int (pageHeaders (b_block (demo_state None 2 (Some (0, 0, [], None))))) \<and>
   At demo_env (snd (next_it demo_env (demo_state None 2 (Some (0, 0, [], None)))))
     = Inl NilPointerDereference"
  using
    At_needs_held_page [of "demo_state None 3 None" demo_env 0 "(0, [], None)" demo_block True 50
      "(0, [], None)"]
    At_needs_held_page [of "demo_state None 0 (Some (0, 1, [10, 20], None))" demo_env 0
      "(1, [10, 20], None)" demo_block True 50 "(0, [], None)"]
    At_needs_held_page [of "demo_state None 2 (Some (0, 0, [], None))" demo_env 0
      "(0, [], None)" demo_block True 50 "(0, [], None)"]
  by (simp add: demo_state_def demo_env_def demo_it_def)

subsection \<open>Seeking on the held page\<close>

text \<open>
  Claim C5. For every state in which a page decoder is held and its index equals the
  seek target's page, \<^verbatim>\<open>Seek\<close> repositions in place through the held decoder's
  \<^verbatim>\<open>Seek(byteOffset)\<close>: after the lazy header load and the error reset, the only change is
  the repositioned decoder, and the only call is that one. No release, no byte-stream
  open and no page-decoder request is made.
\<close>

theorem Seek_same_page_repositions:
  assumes "curPage it = Some (i, d)" and "curPageIndex it = Page offset"
  shows "Seek E offset it =
           Inr ((resetPageTooLarge (ensureInit E it))
                  \<lparr>curPage := Some (i, page_Seek E (ByteOffset offset) d),
                   calls := calls it @ (if initialized it then [] else [CallLoadHeaders])
                            @ [CallPageSeek i (ByteOffset offset)]\<rparr>)"
  using assms
    seekPage_same_page [of "resetPageTooLarge (ensureInit E it)" i d offset E]
  by (simp add: Seek_def ensureInit_fields resetPageTooLarge_fields)

theorem Seek_same_page_repositions_witness:
  "curPage (demo_state None 0 (Some (0, 0, [10, 20], None))) = Some (0, 0, [10, 20], None) \<and>
   curPageIndex (demo_state None 0 (Some (0, 0, [10, 20], None))) = Page \<lparr>Page = 0, ByteOffset = 1\<rparr> \<and>
   Seek demo_env \<lparr>Page = 0, ByteOffset = 1\<rparr> (demo_state None 0 (Some (0, 0, [10, 20], None)))
     = Inr ((demo_state None 0 (Some (0, 1, [10, 20], None)))\<lparr>calls := [CallPageSeek 0 1]\<rparr>)"
  using Seek_same_page_repositions
      [of "demo_state None 0 (Some (0, 0, [10, 20], None))" 0 "(0, [10, 20], None)"
          "\<lparr>Page = 0, ByteOffset = 1\<rparr>" demo_env]
  by (simp add: demo_state_def demo_env_def ensureInit_def resetPageTooLarge_def
      is_PageTooLarge_def)

subsection \<open>The end of the pages\<close>

text \<open>
  Claim C6. For every cursor whose current page index has reached the block's page count
  (the count the block has once its headers are loaded), with no error recorded and no
  page-local error raised, \<^verbatim>\<open>Next\<close> returns false and \<^verbatim>\<open>Err()\<close> returns nil: the end of
  the pages is a clean end of data, not a failure.
\<close>

theorem Next_exhausted_is_clean:
  assumes "err (ensureInit E it) = None"
    and "int (pageHeaders (b_block (ensureInit E it))) \<le> curPageIndex it"
    and "case curPage it of None \<Rightarrow> True | Some (i, d) \<Rightarrow> page_Err E d = None"
  shows "Next E it = (False, ensureInit E it) \<and> Err E (snd (Next E it)) = None"
  using assms
  by (auto simp add: Next_def next_it_def next_loop.simps Err_def ensureInit_fields Let_def
      split: option.splits)

theorem Next_exhausted_is_clean_witness:
  "err (ensureInit demo_env (demo_state None 3 None)) = None \<and>
   int (pageHeaders (b_block (ensureInit demo_env (demo_state None 3 None))))
     \<le> curPageIndex (demo_state None 3 None) \<and>
   Next demo_env (demo_state None 3 None) = (False, demo_state None 3 None) \<and>
   Err demo_env (snd (Next demo_env (demo_state None 3 None))) = None"
  using Next_exhausted_is_clean [of demo_env "demo_state None 3 None"]
  by (simp add: demo_state_def ensureInit_def Err_def)

subsection \<open>Seeking to another page\<close>

text \<open>
  Claim C8. In \<^verbatim>\<open>Seek\<close>, when acquiring the target page fails (the byte-stream open or
  the page-decoder request returns an error), the wrapped error is recorded into the
  cursor and \<^verbatim>\<open>Seek\<close> returns without repositioning: the held decoder's
  \<^verbatim>\<open>Seek(byteOffset)\<close> is not called and \<^verbatim>\<open>curPageIndex\<close> keeps its value. Here \<open>it2\<close>
  is the cursor after the header load, the error reset and the release of the held
  page; the calls made up to there are listed in the last conjunct.
\<close>

theorem Seek_acquire_failure:
  assumes "curPageIndex it \<noteq> Page offset \<or> curPage it = None"
    and "it2 = dropPage E (resetPageTooLarge (ensureInit E it))"
  shows
   "(reader_Blooms E (io (b_block it2)) = (Inl e, w1) \<longrightarrow>
       Seek E offset it =
         Inr (it2\<lparr>b_block := (b_block it2)\<lparr>io := w1\<rparr>,
                 err := Some (Wrap e ''getting blooms reader''),
                 calls := calls it2 @ [CallBlooms]\<rparr>)) \<and>
    (reader_Blooms E (io (b_block it2)) = (Inr r, w1) \<and>
     blooms_BloomPageDecoder E r (Page offset) (m_maxSize it) ((b_block it2)\<lparr>io := w1\<rparr>)
       = (Inl e, w2) \<longrightarrow>
       Seek E offset it =
         Inr (it2\<lparr>b_block := (b_block it2)\<lparr>io := w2\<rparr>,
                 err := Some (Wrap e ''loading bloom page''),
                 calls := calls it2 @ [CallBlooms, CallBloomPageDecoder (Page offset)]\<rparr>)) \<and>
    curPageIndex it2 = curPageIndex it \<and>
    calls it2 = calls it @ (if initialized it then [] else [CallLoadHeaders])
                @ (case curPage it of
                     Some (i, d) \<Rightarrow> if usePool it then [CallRelinquish i] else []
                   | None \<Rightarrow> [])"
  using assms
  by (simp add: Seek_def seekPage_def Let_def ensureInit_fields resetPageTooLarge_fields
      dropPage_fields dropPage_calls split: option.split)

theorem Seek_acquire_failure_witness:
  "curPageIndex (demo_state None 0 (Some (0, 0, [10, 20], None))) \<noteq> Page \<lparr>Page = 1, ByteOffset = 0\<rparr> \<and>
   reader_Blooms demo_offline () = (Inl (ErrOther ''no reader''), ()) \<and>
   Seek demo_offline \<lparr>Page = 1, ByteOffset = 0\<rparr> (demo_state None 0 (Some (0, 0, [10, 20], None)))
     = Inr ((demo_state (Some (Wrap (ErrOther ''no reader'') ''getting blooms reader'')) 0
               (Some (0, 0, [], None)))\<lparr>calls := [CallRelinquish 0, CallBlooms]\<rparr>) \<and>
   reader_Blooms demo_env () = (Inr (), ()) \<and>
   blooms_BloomPageDecoder demo_env () 1 50 \<lparr>pageHeaders = 3, io = ()\<rparr>
     = (Inl ErrPageTooLarge, ()) \<and>
   Seek demo_env \<lparr>Page = 1, ByteOffset = 0\<rparr> (demo_state None 0 (Some (0, 0, [10, 20], None)))
     = Inr ((demo_state (Some (Wrap ErrPageTooLarge ''loading bloom page'')) 0
               (Some (0, 0, [], None)))
             \<lparr>calls := [CallRelinquish 0, CallBlooms, CallBloomPageDecoder 1]\<rparr>)"
  using
    Seek_acquire_failure
      [of "demo_state None 0 (Some (0, 0, [10, 20], None))" "\<lparr>Page = 1, ByteOffset = 0\<rparr>"
          "dropPage demo_offline (resetPageTooLarge (ensureInit demo_offline
             (demo_state None 0 (Some (0, 0, [10, 20], None)))))"
          demo_offline "ErrOther ''no reader''" "()" "()" "()"]
    Seek_acquire_failure
      [of "demo_state None 0 (Some (0, 0, [10, 20], None))" "\<lparr>Page = 1, ByteOffset = 0\<rparr>"
          "dropPage demo_env (resetPageTooLarge (ensureInit demo_env
             (demo_state None 0 (Some (0, 0, [10, 20], None)))))"
          demo_env ErrPageTooLarge "()" "()" "()"]
  by (simp add: demo_state_def demo_env_def demo_offline_def ensureInit_def resetPageTooLarge_def
      is_PageTooLarge_def dropPage_def)

text \<open>
  Claim C9. After a \<^verbatim>\<open>Seek\<close> with pooling enabled has released the held page and then
  failed to acquire the target page, \<^verbatim>\<open>curPage\<close> still points to the released decoder
  and \<^verbatim>\<open>curPageIndex\<close> still holds the old index. A later \<^verbatim>\<open>Seek\<close> whose target page is
  that index skips the acquisition and repositions the released decoder, and a later
  \<^verbatim>\<open>Seek\<close> to any other page calls \<^verbatim>\<open>Relinquish\<close> on that decoder a second time.
\<close>

theorem Seek_failed_acquire_keeps_released_page:
  assumes pool: "usePool it" and held: "curPage it = Some (i, d)"
    and other: "curPageIndex it \<noteq> Page offset"
    and rel: "page_Relinquish E d (io (b_block (ensureInit E it))) = (d', w0)"
    and fail: "(\<exists>e w1. reader_Blooms E w0 = (Inl e, w1)) \<or>
         (\<exists>r w1 e w2. reader_Blooms E w0 = (Inr r, w1) \<and>
            blooms_BloomPageDecoder E r (Page offset) (m_maxSize it)
              ((b_block (ensureInit E it))\<lparr>io := w1\<rparr>) = (Inl e, w2))"
  shows "\<exists>it'. Seek E offset it = Inr it' \<and>
           curPage it' = Some (i, d') \<and> curPageIndex it' = curPageIndex it \<and>
           releases i (calls it') = releases i (calls it) + 1 \<and>
           (\<forall>off2. Page off2 = curPageIndex it' \<longrightarrow>
              (\<exists>it2. Seek E off2 it' = Inr it2 \<and>
                 curPage it2 = Some (i, page_Seek E (ByteOffset off2) d') \<and>
                 calls it2 = calls it' @ [CallPageSeek i (ByteOffset off2)])) \<and>
           (\<forall>off3. Page off3 \<noteq> curPageIndex it' \<longrightarrow>
              (\<exists>it3. Seek E off3 it' = Inr it3 \<and>
                 releases i (calls it3) = releases i (calls it) + 2))"
proof -
  define it1 where "it1 = resetPageTooLarge (ensureInit E it)"
  have f1: "usePool it1" "curPage it1 = Some (i, d)" "curPageIndex it1 = curPageIndex it"
    "b_block it1 = b_block (ensureInit E it)" "m_maxSize it1 = m_maxSize it" "initialized it1"
    "releases i (calls it1) = releases i (calls it)"
    using pool held
    by (simp_all add: it1_def ensureInit_fields resetPageTooLarge_fields releases_append
        releases_simps)
  have dp: "dropPage E it1 = it1\<lparr>b_block := (b_block it1)\<lparr>io := w0\<rparr>, curPage := Some (i, d'),
                                 calls := calls it1 @ [CallRelinquish i]\<rparr>"
    using dropPage_held [of it1 i d E d' w0] f1 rel by simp
  have need: "curPageIndex it1 \<noteq> Page offset \<or> curPage it1 = None"
    using other f1 by simp
  have "\<exists>it'. seekPage E offset it1 = Inr it' \<and> curPage it' = curPage (dropPage E it1) \<and>
           curPageIndex it' = curPageIndex it1 \<and> usePool it' = usePool it1 \<and>
           initialized it' = initialized it1 \<and> err it' \<noteq> None"
    using fail f1 by (intro seekPage_load_fails [OF need]) (simp add: dp)
  then obtain it' where s: "seekPage E offset it1 = Inr it'"
    and c: "curPage it' = Some (i, d')" and p: "curPageIndex it' = curPageIndex it"
    and u: "usePool it'" and n: "initialized it'"
    using f1 dp by auto
  have r1: "releases i (calls it') = releases i (calls it) + 1"
    using seekPage_load_releases [OF need s, of i] f1
    by (simp add: dp releases_append releases_simps)
  have same: "\<exists>it2. Seek E off2 it' = Inr it2 \<and>
                 curPage it2 = Some (i, page_Seek E (ByteOffset off2) d') \<and>
                 calls it2 = calls it' @ [CallPageSeek i (ByteOffset off2)]"
    if "Page off2 = curPageIndex it'" for off2
    using seekPage_same_page [of "resetPageTooLarge it'" i d' off2 E] c that n
    by (simp add: Seek_def ensureInit_idem resetPageTooLarge_fields)
  have twice: "\<exists>it3. Seek E off3 it' = Inr it3 \<and>
                 releases i (calls it3) = releases i (calls it) + 2"
    if "Page off3 \<noteq> curPageIndex it'" for off3
  proof -
    define it2 where "it2 = resetPageTooLarge (ensureInit E it')"
    have f2: "usePool it2" "curPage it2 = Some (i, d')" "curPageIndex it2 = curPageIndex it'"
      "calls it2 = calls it'"
      using u c n by (simp_all add: it2_def ensureInit_idem resetPageTooLarge_fields)
    have need2: "curPageIndex it2 \<noteq> Page off3 \<or> curPage it2 = None"
      using that f2 by simp
    obtain it3 where s3: "seekPage E off3 it2 = Inr it3"
      using seekPage_returns by blast
    have "releases i (calls (dropPage E it2)) = releases i (calls it') + 1"
      using f2 by (simp add: dropPage_def releases_append releases_simps split: prod.split)
    with seekPage_load_releases [OF need2 s3, of i] r1 s3 show ?thesis
      by (simp add: Seek_def it2_def)
  qed
  from s c p r1 same twice show ?thesis
    by (simp add: Seek_def it1_def)
qed

theorem Seek_failed_acquire_keeps_released_page_witness:
  "usePool (demo_state None 0 (Some (0, 0, [10, 20], None))) \<and>
   curPage (demo_state None 0 (Some (0, 0, [10, 20], None))) = Some (0, 0, [10, 20], None) \<and>
   curPageIndex (demo_state None 0 (Some (0, 0, [10, 20], None))) \<noteq> Page \<lparr>Page = 1, ByteOffset = 0\<rparr> \<and>
   page_Relinquish demo_env (0, [10, 20], None) () = ((0, [], None), ()) \<and>
   reader_Blooms demo_env () = (Inr (), ()) \<and>
   blooms_BloomPageDecoder demo_env () 1 50 \<lparr>pageHeaders = 3, io = ()\<rparr> = (Inl ErrPageTooLarge, ()) \<and>
   Seek demo_env \<lparr>Page = 1, ByteOffset = 0\<rparr> (demo_state None 0 (Some (0, 0, [10, 20], None)))
     = Inr ((demo_state (Some (Wrap ErrPageTooLarge ''loading bloom page'')) 0
               (Some (0, 0, [], None)))
             \<lparr>calls := [CallRelinquish 0, CallBlooms, CallBloomPageDecoder 1]\<rparr>) \<and>
   Seek demo_env \<lparr>Page = 0, ByteOffset = 1\<rparr>
       ((demo_state (Some (Wrap ErrPageTooLarge ''loading bloom page'')) 0
               (Some (0, 0, [], None)))
             \<lparr>calls := [CallRelinquish 0, CallBlooms, CallBloomPageDecoder 1]\<rparr>)
     = Inr ((demo_state None 0 (Some (0, 1, [], None)))
             \<lparr>calls := [CallRelinquish 0, CallBlooms, CallBloomPageDecoder 1, CallPageSeek 0 1]\<rparr>) \<and>
   (\<exists>it3. Seek demo_env \<lparr>Page = 2, ByteOffset = 0\<rparr>
       ((demo_state (Some (Wrap ErrPageTooLarge ''loading bloom page'')) 0
               (Some (0, 0, [], None)))
             \<lparr>calls := [CallRelinquish 0, CallBlooms, CallBloomPageDecoder 1]\<rparr>) = Inr it3 \<and>
      releases 0 (calls it3) = 2)"
proof -
  let ?S = "demo_state None 0 (Some (0, 0, [10, 20], None))"
  have pool: "usePool ?S" and held: "curPage ?S = Some (0, 0, [10, 20], None)"
    and other: "curPageIndex ?S \<noteq> Page \<lparr>Page = 1, ByteOffset = 0\<rparr>"
    and rel: "page_Relinquish demo_env (0, [10, 20], None) (io (b_block (ensureInit demo_env ?S)))
              = ((0, [], None), ())"
    by (simp_all add: demo_state_def demo_env_def)
  have fail: "(\<exists>e w1. reader_Blooms demo_env () = (Inl e, w1)) \<or>
     (\<exists>r w1 e w2. reader_Blooms demo_env () = (Inr r, w1) \<and>
        blooms_BloomPageDecoder demo_env r (Page \<lparr>Page = 1, ByteOffset = 0\<rparr>) (m_maxSize ?S)
          ((b_block (ensureInit demo_env ?S))\<lparr>io := w1\<rparr>) = (Inl e, w2))"
    by (simp add: demo_env_def demo_state_def)
  show ?thesis
    using Seek_failed_acquire_keeps_released_page [OF pool held other rel fail]
    by (simp add: it_defs demo_defs)
qed

subsection \<open>Releasing pooled pages\<close>

text \<open>
  Claim C1 says that with pooling every page decoder is released exactly once, when the
  cursor moves off its page. The run below is a pooled cursor that seeks to page 0, then
  to page 1, which is too large for \<^verbatim>\<open>maxSize\<close> 50, then to page 2. The failed seek
  releases decoder 0 and keeps it in \<^verbatim>\<open>curPage\<close>; the third seek releases it again. If
  the third seek goes back to page 0 instead, the released decoder is repositioned.
\<close>

theorem Seek_releases_held_page_twice:
  "run demo_env [OpSeek \<lparr>Page = 0, ByteOffset = 0\<rparr>, OpSeek \<lparr>Page = 1, ByteOffset = 0\<rparr>,
                 OpSeek \<lparr>Page = 2, ByteOffset = 0\<rparr>] demo_it
   = Inr ((demo_state None 2 (Some (1, 0, [], Some (ErrOther ''decode''))))
            \<lparr>nextId := 2,
             calls := [CallLoadHeaders, CallBlooms, CallBloomPageDecoder 0, CallPageSeek 0 0,
                       CallRelinquish 0, CallBlooms, CallBloomPageDecoder 1,
                       CallRelinquish 0, CallBlooms, CallBloomPageDecoder 2, CallPageSeek 1 0]\<rparr>) \<and>
   releases 0 [CallLoadHeaders, CallBlooms, CallBloomPageDecoder 0, CallPageSeek 0 0,
               CallRelinquish 0, CallBlooms, CallBloomPageDecoder 1,
               CallRelinquish 0, CallBlooms, CallBloomPageDecoder 2, CallPageSeek 1 0] = 2 \<and>
   run demo_env [OpSeek \<lparr>Page = 0, ByteOffset = 0\<rparr>, OpSeek \<lparr>Page = 1, ByteOffset = 0\<rparr>,
                 OpSeek \<lparr>Page = 0, ByteOffset = 1\<rparr>] demo_it
   = Inr ((demo_state None 0 (Some (0, 1, [], None)))
            \<lparr>calls := [CallLoadHeaders, CallBlooms, CallBloomPageDecoder 0, CallPageSeek 0 0,
                       CallRelinquish 0, CallBlooms, CallBloomPageDecoder 1,
                       CallPageSeek 0 1]\<rparr>)"
  by (simp add: it_defs demo_defs)

subsection \<open>Recorded errors\<close>



text \<open>
  Claim C3 says that once an error other than page-too-large is recorded, \<^verbatim>\<open>Seek\<close>
  leaves it untouched and positions nothing any more. \<^verbatim>\<open>Seek\<close> has no such guard. On the
  small block, a seek to the refused page 7 records an error that is not page-too-large;
  the next seek to page 0 acquires that page and positions its decoder, and \<^verbatim>\<open>At\<close> reads
  it. If a seek to the oversized page 1 comes in between, the recorded error is replaced
  by a page-too-large error, which the following seek clears: \<^verbatim>\<open>Next\<close> then succeeds.
\<close>

theorem recorded_error_short_circuit_counterexample:
  "run demo_env [OpSeek \<lparr>Page = 7, ByteOffset = 0\<rparr>] demo_it
   = Inr ((demo_state (Some (Wrap (ErrOther ''invalid page'') ''loading bloom page'')) 0 None)
            \<lparr>nextId := 0, calls := [CallLoadHeaders, CallBlooms, CallBloomPageDecoder 7]\<rparr>) \<and>
   \<not> is_PageTooLarge (Some (Wrap (ErrOther ''invalid page'') ''loading bloom page'')) \<and>
   run demo_env [OpSeek \<lparr>Page = 7, ByteOffset = 0\<rparr>, OpSeek \<lparr>Page = 0, ByteOffset = 1\<rparr>] demo_it
   = Inr ((demo_state (Some (Wrap (ErrOther ''invalid page'') ''loading bloom page'')) 0
             (Some (0, 1, [10, 20], None)))
            \<lparr>calls := [CallLoadHeaders, CallBlooms, CallBloomPageDecoder 7,
                       CallBlooms, CallBloomPageDecoder 0, CallPageSeek 0 1]\<rparr>) \<and>
   At demo_env (demo_state (Some (Wrap (ErrOther ''invalid page'') ''loading bloom page'')) 0
             (Some (0, 1, [10, 20], None))) = Inr (1, 2) \<and>
   run demo_env [OpSeek \<lparr>Page = 7, ByteOffset = 0\<rparr>, OpSeek \<lparr>Page = 1, ByteOffset = 0\<rparr>,
                 OpSeek \<lparr>Page = 0, ByteOffset = 1\<rparr>, OpNext] demo_it
   = Inr ((demo_state None 0 (Some (0, 2, [20], None)))
            \<lparr>calls := [CallLoadHeaders, CallBlooms, CallBloomPageDecoder 7,
                       CallBlooms, CallBloomPageDecoder 1,
                       CallBlooms, CallBloomPageDecoder 0, CallPageSeek 0 1, CallPageNext 0]\<rparr>)"
  by (simp add: it_defs demo_defs next_loop.simps)

text \<open>
  Claim C3, as the code has it. Once an error other than page-too-large is recorded (on
  an initialised cursor), \<^verbatim>\<open>Next\<close> returns false at once and changes nothing, and \<^verbatim>\<open>Seek\<close>
  never clears the error but does not stop at it either. On the held page \<^verbatim>\<open>Seek\<close>
  repositions the held decoder and keeps the error. On another page it releases the held
  page (\<open>it2\<close> is the cursor after that), opens the stream and requests the target
  page: when that succeeds the cursor is positioned on the new page with the old error
  still recorded; when it fails, the wrapped error of that failure replaces the recorded
  one.
\<close>

theorem recorded_error_stays:
  assumes "err it = Some e" and "\<not> errors_Is e ErrPageTooLarge" and "initialized it"
  shows "Next E it = (False, it) \<and>
         (\<exists>it'. Seek E offset it = Inr it' \<and>
            (err it' = Some e \<or> (\<exists>c. err it' = Some (Wrap c ''getting blooms reader''))
             \<or> (\<exists>c. err it' = Some (Wrap c ''loading bloom page'')))) \<and>
         (curPage it = Some (i, d) \<and> curPageIndex it = Page offset \<longrightarrow>
            Seek E offset it =
              Inr (it\<lparr>curPage := Some (i, page_Seek E (ByteOffset offset) d),
                      calls := calls it @ [CallPageSeek i (ByteOffset offset)]\<rparr>)) \<and>
         ((curPageIndex it \<noteq> Page offset \<or> curPage it = None) \<and> it2 = dropPage E it \<longrightarrow>
            err it2 = Some e \<and>
            (reader_Blooms E (io (b_block it2)) = (Inl e1, w1) \<longrightarrow>
               Seek E offset it =
                 Inr (it2\<lparr>b_block := (b_block it2)\<lparr>io := w1\<rparr>,
                         err := Some (Wrap e1 ''getting blooms reader''),
                         calls := calls it2 @ [CallBlooms]\<rparr>)) \<and>
            (reader_Blooms E (io (b_block it2)) = (Inr r, w1) \<and>
             blooms_BloomPageDecoder E r (Page offset) (m_maxSize it) ((b_block it2)\<lparr>io := w1\<rparr>)
               = (Inl e1, w2) \<longrightarrow>
               Seek E offset it =
                 Inr (it2\<lparr>b_block := (b_block it2)\<lparr>io := w2\<rparr>,
                         err := Some (Wrap e1 ''loading bloom page''),
                         calls := calls it2 @ [CallBlooms, CallBloomPageDecoder (Page offset)]\<rparr>)) \<and>
            (reader_Blooms E (io (b_block it2)) = (Inr r, w1) \<and>
             blooms_BloomPageDecoder E r (Page offset) (m_maxSize it) ((b_block it2)\<lparr>io := w1\<rparr>)
               = (Inr dn, w2) \<longrightarrow>
               Seek E offset it =
                 Inr (it2\<lparr>b_block := (b_block it2)\<lparr>io := w2\<rparr>,
                         err := Some e,
                         curPageIndex := Page offset,
                         curPage := Some (nextId it, page_Seek E (ByteOffset offset) dn),
                         nextId := Suc (nextId it),
                         calls := calls it2 @ [CallBlooms, CallBloomPageDecoder (Page offset),
                                               CallPageSeek (nextId it) (ByteOffset offset)]\<rparr>)))"
proof -
  have n: "Next E it = (False, it)"
    using assms by (simp add: Next_def ensureInit_idem)
  have r: "resetPageTooLarge (ensureInit E it) = it"
    using assms by (simp add: ensureInit_idem resetPageTooLarge_def is_PageTooLarge_def)
  have pre: "Seek E offset it = seekPage E offset it"
    using r by (simp add: Seek_def)
  obtain it' where s: "seekPage E offset it = Inr it'"
    using seekPage_returns by blast
  have ex: "\<exists>it'. Seek E offset it = Inr it' \<and>
            (err it' = Some e \<or> (\<exists>c. err it' = Some (Wrap c ''getting blooms reader''))
             \<or> (\<exists>c. err it' = Some (Wrap c ''loading bloom page'')))"
    using seekPage_err [OF s] assms(1) pre s by simp
  have same: "curPage it = Some (i, d) \<and> curPageIndex it = Page offset \<longrightarrow>
            Seek E offset it =
              Inr (it\<lparr>curPage := Some (i, page_Seek E (ByteOffset offset) d),
                      calls := calls it @ [CallPageSeek i (ByteOffset offset)]\<rparr>)"
    using pre seekPage_same_page [of it i d offset E] by simp
  have load: "(curPageIndex it \<noteq> Page offset \<or> curPage it = None) \<and> it2 = dropPage E it \<longrightarrow>
            err it2 = Some e \<and>
            (reader_Blooms E (io (b_block it2)) = (Inl e1, w1) \<longrightarrow>
               Seek E offset it =
                 Inr (it2\<lparr>b_block := (b_block it2)\<lparr>io := w1\<rparr>,
                         err := Some (Wrap e1 ''getting blooms reader''),
                         calls := calls it2 @ [CallBlooms]\<rparr>)) \<and>
            (reader_Blooms E (io (b_block it2)) = (Inr r, w1) \<and>
             blooms_BloomPageDecoder E r (Page offset) (m_maxSize it) ((b_block it2)\<lparr>io := w1\<rparr>)
               = (Inl e1, w2) \<longrightarrow>
               Seek E offset it =
                 Inr (it2\<lparr>b_block := (b_block it2)\<lparr>io := w2\<rparr>,
                         err := Some (Wrap e1 ''loading bloom page''),
                         calls := calls it2 @ [CallBlooms, CallBloomPageDecoder (Page offset)]\<rparr>)) \<and>
            (reader_Blooms E (io (b_block it2)) = (Inr r, w1) \<and>
             blooms_BloomPageDecoder E r (Page offset) (m_maxSize it) ((b_block it2)\<lparr>io := w1\<rparr>)
               = (Inr dn, w2) \<longrightarrow>
               Seek E offset it =
                 Inr (it2\<lparr>b_block := (b_block it2)\<lparr>io := w2\<rparr>,
                         err := Some e,
                         curPageIndex := Page offset,
                         curPage := Some (nextId it, page_Seek E (ByteOffset offset) dn),
                         nextId := Suc (nextId it),
                         calls := calls it2 @ [CallBlooms, CallBloomPageDecoder (Page offset),
                                               CallPageSeek (nextId it) (ByteOffset offset)]\<rparr>))"
  proof (intro impI, elim conjE)
    assume a: "curPageIndex it \<noteq> Page offset \<or> curPage it = None" "it2 = dropPage E it"
    have e2: "err it2 = Some e"
      using a(2) assms(1) by (simp add: dropPage_fields)
    from seekPage_load_outcomes [OF a, of e1 w1 r w2 dn] pre e2
    show "err it2 = Some e \<and>
            (reader_Blooms E (io (b_block it2)) = (Inl e1, w1) \<longrightarrow>
               Seek E offset it =
                 Inr (it2\<lparr>b_block := (b_block it2)\<lparr>io := w1\<rparr>,
                         err := Some (Wrap e1 ''getting blooms reader''),
                         calls := calls it2 @ [CallBlooms]\<rparr>)) \<and>
            (reader_Blooms E (io (b_block it2)) = (Inr r, w1) \<and>
             blooms_BloomPageDecoder E r (Page offset) (m_maxSize it) ((b_block it2)\<lparr>io := w1\<rparr>)
               = (Inl e1, w2) \<longrightarrow>
               Seek E offset it =
                 Inr (it2\<lparr>b_block := (b_block it2)\<lparr>io := w2\<rparr>,
                         err := Some (Wrap e1 ''loading bloom page''),
                         calls := calls it2 @ [CallBlooms, CallBloomPageDecoder (Page offset)]\<rparr>)) \<and>
            (reader_Blooms E (io (b_block it2)) = (Inr r, w1) \<and>
             blooms_BloomPageDecoder E r (Page offset) (m_maxSize it) ((b_block it2)\<lparr>io := w1\<rparr>)
               = (Inr dn, w2) \<longrightarrow>
               Seek E offset it =
                 Inr (it2\<lparr>b_block := (b_block it2)\<lparr>io := w2\<rparr>,
                         err := Some e,
                         curPageIndex := Page offset,
                         curPage := Some (nextId it, page_Seek E (ByteOffset offset) dn),
                         nextId := Suc (nextId it),
                         calls := calls it2 @ [CallBlooms, CallBloomPageDecoder (Page offset),
                                               CallPageSeek (nextId it) (ByteOffset offset)]\<rparr>))"
      by simp
  qed
  from n ex same load show ?thesis by blast
qed

theorem recorded_error_stays_witness:
  "err (demo_state (Some (ErrOther ''headers'')) 0 (Some (0, 0, [10, 20], None)))
     = Some (ErrOther ''headers'') \<and>
   \<not> errors_Is (ErrOther ''headers'') ErrPageTooLarge \<and>
   initialized (demo_state (Some (ErrOther ''headers'')) 0 (Some (0, 0, [10, 20], None))) \<and>
   Next demo_env (demo_state (Some (ErrOther ''headers'')) 0 (Some (0, 0, [10, 20], None)))
     = (False, demo_state (Some (ErrOther ''headers'')) 0 (Some (0, 0, [10, 20], None))) \<and>
   curPage (demo_state (Some (ErrOther ''headers'')) 0 (Some (0, 0, [10, 20], None)))
     = Some (0, 0, [10, 20], None) \<and>
   curPageIndex (demo_state (Some (ErrOther ''headers'')) 0 (Some (0, 0, [10, 20], None)))
     = Page \<lparr>Page = 0, ByteOffset = 1\<rparr> \<and>
   Seek demo_env \<lparr>Page = 0, ByteOffset = 1\<rparr>
       (demo_state (Some (ErrOther ''headers'')) 0 (Some (0, 0, [10, 20], None)))
     = Inr ((demo_state (Some (ErrOther ''headers'')) 0 (Some (0, 1, [10, 20], None)))
              \<lparr>calls := [CallPageSeek 0 1]\<rparr>) \<and>
   curPageIndex (demo_state (Some (ErrOther ''headers'')) 0 (Some (0, 0, [10, 20], None)))
     \<noteq> Page \<lparr>Page = 2, ByteOffset = 0\<rparr> \<and>
   reader_Blooms demo_offline () = (Inl (ErrOther ''no reader''), ()) \<and>
   Seek demo_offline \<lparr>Page = 2, ByteOffset = 0\<rparr>
       (demo_state (Some (ErrOther ''headers'')) 0 (Some (0, 0, [10, 20], None)))
     = Inr ((demo_state (Some (Wrap (ErrOther ''no reader'') ''getting blooms reader'')) 0
               (Some (0, 0, [], None)))
              \<lparr>calls := [CallRelinquish 0, CallBlooms]\<rparr>) \<and>
   reader_Blooms demo_env () = (Inr (), ()) \<and>
   blooms_BloomPageDecoder demo_env () 1 50 \<lparr>pageHeaders = 3, io = ()\<rparr>
     = (Inl ErrPageTooLarge, ()) \<and>
   Seek demo_env \<lparr>Page = 1, ByteOffset = 0\<rparr>
       (demo_state (Some (ErrOther ''headers'')) 0 (Some (0, 0, [10, 20], None)))
     = Inr ((demo_state (Some (Wrap ErrPageTooLarge ''loading bloom page'')) 0
               (Some (0, 0, [], None)))
              \<lparr>calls := [CallRelinquish 0, CallBlooms, CallBloomPageDecoder 1]\<rparr>) \<and>
   blooms_BloomPageDecoder demo_env () 2 50 \<lparr>pageHeaders = 3, io = ()\<rparr>
     = (Inr (0, [], Some (ErrOther ''decode'')), ()) \<and>
   Seek demo_env \<lparr>Page = 2, ByteOffset = 0\<rparr>
       (demo_state (Some (ErrOther ''headers'')) 0 (Some (0, 0, [10, 20], None)))
     = Inr ((demo_state (Some (ErrOther ''headers'')) 2
               (Some (1, 0, [], Some (ErrOther ''decode''))))
              \<lparr>nextId := 2,
               calls := [CallRelinquish 0, CallBlooms, CallBloomPageDecoder 2,
                         CallPageSeek 1 0]\<rparr>)"
  using
    recorded_error_stays
      [where it = "demo_state (Some (ErrOther ''headers'')) 0 (Some (0, 0, [10, 20], None))"
         and e = "ErrOther ''headers''" and E = demo_env
         and offset = "\<lparr>Page = 0, ByteOffset = 1\<rparr>" and i = 0 and d = "(0, [10, 20], None)"]
    recorded_error_stays
      [where it = "demo_state (Some (ErrOther ''headers'')) 0 (Some (0, 0, [10, 20], None))"
         and e = "ErrOther ''headers''" and E = demo_offline
         and offset = "\<lparr>Page = 2, ByteOffset = 0\<rparr>"
         and ?it2.0 = "dropPage demo_offline
              (demo_state (Some (ErrOther ''headers'')) 0 (Some (0, 0, [10, 20], None)))"
         and ?e1.0 = "ErrOther ''no reader''" and ?w1.0 = "()"]
    recorded_error_stays
      [where it = "demo_state (Some (ErrOther ''headers'')) 0 (Some (0, 0, [10, 20], None))"
         and e = "ErrOther ''headers''" and E = demo_env
         and offset = "\<lparr>Page = 1, ByteOffset = 0\<rparr>"
         and ?it2.0 = "dropPage demo_env
              (demo_state (Some (ErrOther ''headers'')) 0 (Some (0, 0, [10, 20], None)))"
         and ?e1.0 = ErrPageTooLarge and ?w1.0 = "()" and r = "()" and ?w2.0 = "()"]
    recorded_error_stays
      [where it = "demo_state (Some (ErrOther ''headers'')) 0 (Some (0, 0, [10, 20], None))"
         and e = "ErrOther ''headers''" and E = demo_env
         and offset = "\<lparr>Page = 2, ByteOffset = 0\<rparr>"
         and ?it2.0 = "dropPage demo_env
              (demo_state (Some (ErrOther ''headers'')) 0 (Some (0, 0, [10, 20], None)))"
         and ?w1.0 = "()" and r = "()" and ?w2.0 = "()"
         and dn = "(0, [], Some (ErrOther ''decode''))"]
  by (simp add: it_defs demo_defs demo_offline_def)

subsection \<open>Page-local errors in \<^verbatim>\<open>next\<close>\<close>

text \<open>
  Whenever the loop of \<^verbatim>\<open>next\<close> returns with a page still held, it has not written the
  cursor-level error: the loop writes \<^verbatim>\<open>it.err\<close> only where acquiring a page fails, and
  then no page is held.
\<close>

lemma next_loop_err_kept:
  "curPage (snd (next_loop E it)) \<noteq> None \<Longrightarrow> err (snd (next_loop E it)) = err it"
proof (induction E it rule: next_loop.induct)
  case (1 E it)
  show ?case
  proof (cases "curPageIndex it < int (pageHeaders (b_block it))")
    case False
    then show ?thesis by (simp add: next_loop.simps)
  next
    case guard: True
    show ?thesis
    proof (cases "curPage it")
      case None
      obtain x w1 where rb: "reader_Blooms E (io (b_block it)) = (x, w1)"
        by (cases "reader_Blooms E (io (b_block it))")
      show ?thesis
      proof (cases x)
        case (Inl e)
        with guard None rb "1.prems" show ?thesis
          by (simp add: next_loop.simps)
      next
        case (Inr r)
        obtain y w2 where pd: "blooms_BloomPageDecoder E r (curPageIndex it) (m_maxSize it)
            ((b_block it)\<lparr>io := w1\<rparr>) = (y, w2)"
          by (cases "blooms_BloomPageDecoder E r (curPageIndex it) (m_maxSize it)
            ((b_block it)\<lparr>io := w1\<rparr>)")
        show ?thesis
        proof (cases y)
          case (Inl e)
          with guard None rb Inr pd "1.prems" show ?thesis
            by (simp add: next_loop.simps)
        next
          case d: (Inr d)
          have eq: "next_loop E it = next_loop E
                         (it\<lparr>b_block := (b_block it)\<lparr>io := w2\<rparr>,
                             curPage := Some (nextId it, d),
                             nextId := Suc (nextId it),
                             calls := calls it
                               @ [CallBlooms, CallBloomPageDecoder (curPageIndex it)]\<rparr>)"
            using guard None rb Inr pd d by (subst next_loop.simps) simp
          from "1.IH"(1) [OF guard None rb [symmetric] Inr pd [symmetric] d]
            "1.prems" eq show ?thesis by simp
        qed
      qed
    next
      case (Some a)
      obtain i d where a: "a = (i, d)" by (cases a)
      obtain r d' where pn: "page_Next E d = (r, d')" by (cases "page_Next E d")
      show ?thesis
      proof (cases r)
        case True
        with guard Some a pn show ?thesis by (simp add: next_loop.simps)
      next
        case False
        then have rF: "r = False" by simp
        show ?thesis
        proof (cases "page_Err E d' \<noteq> None")
          case True
          with guard Some a pn False show ?thesis by (simp add: next_loop.simps)
        next
          case noerr: False
          show ?thesis
          proof (cases "usePool it")
            case True
            obtain d'' w where pr: "page_Relinquish E d' (io (b_block it)) = (d'', w)"
              by (cases "page_Relinquish E d' (io (b_block it))")
            have eq: "next_loop E it = next_loop E
                            (it\<lparr>b_block := (b_block it)\<lparr>io := w\<rparr>,
                                curPageIndex := curPageIndex it + 1,
                                curPage := None,
                                calls := calls it @ [CallPageNext i, CallRelinquish i]\<rparr>)"
              using guard Some a pn False noerr True pr by (subst next_loop.simps) simp
            from "1.IH"(2) [OF guard Some a [symmetric] pn [symmetric] rF noerr True
                pr [symmetric]] "1.prems" eq
            show ?thesis by simp
          next
            case nopool: False
            have eq: "next_loop E it = next_loop E
                       (it\<lparr>curPageIndex := curPageIndex it + 1,
                           curPage := None,
                           calls := calls it @ [CallPageNext i]\<rparr>)"
              using guard Some a pn False noerr nopool by (subst next_loop.simps) simp
            from "1.IH"(3) [OF guard Some a [symmetric] pn [symmetric] rF noerr nopool]
              "1.prems" eq
            show ?thesis by simp
          qed
        qed
      qed
    qed
  qed
qed

text \<open>
  Claim C4 says that \<^verbatim>\<open>next\<close> records a page-local error into the cursor-level error.
  On the small block, page 2 fails to decode: its decoder's \<^verbatim>\<open>Next\<close> returns false and
  its \<^verbatim>\<open>Err\<close> is set. \<^verbatim>\<open>next\<close> on that page returns false and the cursor-level error
  stays nil.
\<close>

theorem next_records_page_error_counterexample:
  "run demo_env [OpSeek \<lparr>Page = 2, ByteOffset = 0\<rparr>] demo_it
   = Inr ((demo_state None 2 (Some (0, 0, [], Some (ErrOther ''decode''))))
            \<lparr>calls := [CallLoadHeaders, CallBlooms, CallBloomPageDecoder 2, CallPageSeek 0 0]\<rparr>) \<and>
   page_Next demo_env (0, [], Some (ErrOther ''decode''))
     = (False, 0, [], Some (ErrOther ''decode'')) \<and>
   page_Err demo_env (0, [], Some (ErrOther ''decode'')) = Some (ErrOther ''decode'') \<and>
   next_it demo_env
       ((demo_state None 2 (Some (0, 0, [], Some (ErrOther ''decode''))))
            \<lparr>calls := [CallLoadHeaders, CallBlooms, CallBloomPageDecoder 2, CallPageSeek 0 0]\<rparr>)
   = (False, (demo_state None 2 (Some (0, 0, [], Some (ErrOther ''decode''))))
            \<lparr>calls := [CallLoadHeaders, CallBlooms, CallBloomPageDecoder 2, CallPageSeek 0 0,
                       CallPageNext 0]\<rparr>) \<and>
   err ((demo_state None 2 (Some (0, 0, [], Some (ErrOther ''decode''))))
            \<lparr>calls := [CallLoadHeaders, CallBlooms, CallBloomPageDecoder 2, CallPageSeek 0 0,
                       CallPageNext 0]\<rparr>) = None"
  by (simp add: it_defs demo_defs next_loop.simps)

text \<open>
  Claim C4, as the code has it. In \<^verbatim>\<open>next\<close>, whenever the held page's \<^verbatim>\<open>Next\<close> returns
  false and the page reports a page-local error, \<^verbatim>\<open>next\<close> returns false, keeps the page
  and leaves the cursor-level error nil; the page's error reaches the caller through
  \<^verbatim>\<open>Err()\<close>, which asks the held page. More generally, whenever \<^verbatim>\<open>next\<close> returns with a
  page held, the cursor-level error is as it was and \<^verbatim>\<open>Err()\<close> is that page's error.
\<close>

theorem next_leaves_page_error_with_page:
  "(err it = None \<and> curPageIndex it < int (pageHeaders (b_block it)) \<and>
    curPage it = Some (i, d) \<and> page_Next E d = (False, d') \<and> page_Err E d' = Some e \<longrightarrow>
      next_it E it
        = (False, it\<lparr>curPage := Some (i, d'), calls := calls it @ [CallPageNext i]\<rparr>) \<and>
      err (snd (next_it E it)) = None \<and>
      Err E (snd (next_it E it)) = Some e) \<and>
   (err it = None \<and> curPage (snd (next_it E it)) = Some (j, p) \<longrightarrow>
      err (snd (next_it E it)) = None \<and> Err E (snd (next_it E it)) = page_Err E p)"
proof -
  have one: "next_it E it
        = (False, it\<lparr>curPage := Some (i, d'), calls := calls it @ [CallPageNext i]\<rparr>)"
    if "err it = None" "curPageIndex it < int (pageHeaders (b_block it))"
      "curPage it = Some (i, d)" "page_Next E d = (False, d')" "page_Err E d' = Some e"
    using that by (simp add: next_it_def next_loop.simps)
  have kept: "err (snd (next_it E it)) = None"
    if "err it = None" "curPage (snd (next_it E it)) = Some (j, p)"
    using that next_loop_err_kept [of E it] by (simp add: next_it_def)
  show ?thesis
    using one kept by (auto simp: Err_def)
qed

theorem next_leaves_page_error_with_page_witness:
  "err (demo_state None 2 (Some (0, 0, [], Some (ErrOther ''decode'')))) = None \<and>
   curPageIndex (demo_state None 2 (Some (0, 0, [], Some (ErrOther ''decode''))))
     < int (pageHeaders (b_block (demo_state None 2 (Some (0, 0, [], Some (ErrOther ''decode'')))))) \<and>
   page_Next demo_env (0, [], Some (ErrOther ''decode''))
     = (False, 0, [], Some (ErrOther ''decode'')) \<and>
   page_Err demo_env (0, [], Some (ErrOther ''decode'')) = Some (ErrOther ''decode'') \<and>
   next_it demo_env (demo_state None 2 (Some (0, 0, [], Some (ErrOther ''decode''))))
     = (False, (demo_state None 2 (Some (0, 0, [], Some (ErrOther ''decode''))))
                 \<lparr>calls := [CallPageNext 0]\<rparr>) \<and>
   Err demo_env (snd (next_it demo_env (demo_state None 2 (Some (0, 0, [], Some (ErrOther ''decode''))))))
     = Some (ErrOther ''decode'')"
  using next_leaves_page_error_with_page
      [of "demo_state None 2 (Some (0, 0, [], Some (ErrOther ''decode'')))" 0
          "(0, [], Some (ErrOther ''decode''))" demo_env "(0, [], Some (ErrOther ''decode''))"
          "ErrOther ''decode''" 0 "(0, [], Some (ErrOther ''decode''))"]
  by (simp add: demo_state_def demo_env_def Err_def next_it_def next_loop.simps)

end
